theory Spec2Isabelle
  imports Complex_Main
begin

section \<open>JavaScript strings\<close>

text \<open>
  Strings are lists of code units below 256 (ASCII and Latin-1). On that range the
  white space of \<open>\s\<close> and \<open>trim\<close> and the case folding of \<open>toLowerCase\<close> are
  JavaScript's. Code units from 256 on, among them the other Unicode spaces, are outside
  the model. Character classes are written out as the list of their characters.
\<close>

definition lowerAZ :: string where
  "lowerAZ = ''abcdefghijklmnopqrstuvwxyz''"

definition upperAZ :: string where
  "upperAZ = ''ABCDEFGHIJKLMNOPQRSTUVWXYZ''"

definition digits :: string where
  "digits = ''0123456789''"

definition alnum :: string where
  "alnum = ''abcdefghijklmnopqrstuvwxyzABCDEFGHIJKLMNOPQRSTUVWXYZ0123456789''"

text \<open>The letters of Latin-1 that have another case in Latin-1, upper case and lower case.\<close>

definition upperLatin :: string where
  "upperLatin =
     [CHR 0xC0, CHR 0xC1, CHR 0xC2, CHR 0xC3, CHR 0xC4, CHR 0xC5, CHR 0xC6, CHR 0xC7,
      CHR 0xC8, CHR 0xC9, CHR 0xCA, CHR 0xCB, CHR 0xCC, CHR 0xCD, CHR 0xCE, CHR 0xCF,
      CHR 0xD0, CHR 0xD1, CHR 0xD2, CHR 0xD3, CHR 0xD4, CHR 0xD5, CHR 0xD6, CHR 0xD8,
      CHR 0xD9, CHR 0xDA, CHR 0xDB, CHR 0xDC, CHR 0xDD, CHR 0xDE]"

definition lowerLatin :: string where
  "lowerLatin =
     [CHR 0xE0, CHR 0xE1, CHR 0xE2, CHR 0xE3, CHR 0xE4, CHR 0xE5, CHR 0xE6, CHR 0xE7,
      CHR 0xE8, CHR 0xE9, CHR 0xEA, CHR 0xEB, CHR 0xEC, CHR 0xED, CHR 0xEE, CHR 0xEF,
      CHR 0xF0, CHR 0xF1, CHR 0xF2, CHR 0xF3, CHR 0xF4, CHR 0xF5, CHR 0xF6, CHR 0xF8,
      CHR 0xF9, CHR 0xFA, CHR 0xFB, CHR 0xFC, CHR 0xFD, CHR 0xFE]"

text \<open>
  White space and line terminators below 256: tab, line feed, vertical tab, form feed,
  carriage return, space and the no-break space.
\<close>

definition whitespace :: string where
  "whitespace = [CHR 0x09, CHR 0x0A, CHR 0x0B, CHR 0x0C, CHR 0x0D, CHR 0x20, CHR 0xA0]"

definition isUpper :: "char \<Rightarrow> bool" where
  "isUpper c = (c \<in> set upperAZ)"

definition isLower :: "char \<Rightarrow> bool" where
  "isLower c = (c \<in> set lowerAZ)"

definition isSpace :: "char \<Rightarrow> bool" where
  "isSpace c = (c \<in> set whitespace)"

text \<open>The word characters of \<open>\b\<close>: \<open>[A-Za-z0-9_]\<close>.\<close>

definition isWordChar :: "char \<Rightarrow> bool" where
  "isWordChar c = (c \<in> set (CHR ''_'' # alnum))"

definition toLower :: "char \<Rightarrow> char" where
  "toLower c =
     (case map_of (zip (upperAZ @ upperLatin) (lowerAZ @ lowerLatin)) c of
        Some l \<Rightarrow> l
      | None \<Rightarrow> c)"

definition toUpper :: "char \<Rightarrow> char" where
  "toUpper c =
     (case map_of (zip (lowerAZ @ lowerLatin) (upperAZ @ upperLatin)) c of
        Some u \<Rightarrow> u
      | None \<Rightarrow> c)"

definition toLowerCase :: "string \<Rightarrow> string" where
  "toLowerCase s = map toLower s"


definition startsWith :: "string \<Rightarrow> string \<Rightarrow> bool" where
  "startsWith s p = (take (length p) s = p)"

fun strIncludes :: "string \<Rightarrow> string \<Rightarrow> bool" where
  "strIncludes [] sub = (sub = [])"
| "strIncludes (x # xs) sub = (startsWith (x # xs) sub \<or> strIncludes xs sub)"

definition trim :: "string \<Rightarrow> string" where
  "trim s = rev (dropWhile isSpace (rev (dropWhile isSpace s)))"

definition digitChar :: "nat \<Rightarrow> char" where
  "digitChar n = digits ! (n mod 10)"

fun showNat :: "nat \<Rightarrow> string" where
  "showNat n = (if n < 10 then [digitChar n] else showNat (n div 10) @ [digitChar (n mod 10)])"

definition digitValue :: "char \<Rightarrow> nat" where
  "digitValue c = length (takeWhile (\<lambda>x. x \<noteq> c) digits)"

text \<open>\<open>parseInt\<close> of a string of decimal digits.\<close>

definition parseInt :: "string \<Rightarrow> nat" where
  "parseInt ds = foldl (\<lambda>a c. 10 * a + digitValue c) 0 ds"

fun joinWith :: "string \<Rightarrow> string list \<Rightarrow> string" where
  "joinWith sep [] = []"
| "joinWith sep [x] = x"
| "joinWith sep (x # y # ys) = x @ sep @ joinWith sep (y # ys)"

section \<open>Regular expressions\<close>

text \<open>
  The regular expressions of the source are data; \<open>ms\<close> is a backtracking matcher that
  returns every way a pattern can match at the current position, in the priority order of
  JavaScript (earlier alternative first, greedy repetition). A matcher state is the
  character before the position (for \<open>\b\<close> and \<open>^\<close>), the rest of the input and the
  capture groups set so far.
\<close>

datatype rx =
    REps
  | RLit char
  | RCls bool string
  | RSeq rx rx
  | RAlt rx rx
  | RStar rx
  | RGrp nat rx
  | RWordB
  | RBol

type_synonym mstate = "char option \<times> string \<times> (nat \<times> string) list"

definition litMatches :: "bool \<Rightarrow> char \<Rightarrow> char \<Rightarrow> bool" where
  "litMatches ci c x = (if ci then toLower c = toLower x else c = x)"

text \<open>
  A class \<open>[...]\<close> or \<open>[^...]\<close>; with the \<open>i\<close> flag a character also matches through
  its other case.
\<close>

definition clsMatches :: "bool \<Rightarrow> bool \<Rightarrow> string \<Rightarrow> char \<Rightarrow> bool" where
  "clsMatches ci neg cls x =
     (let hit = (x \<in> set cls \<or> (ci \<and> (toLower x \<in> set cls \<or> toUpper x \<in> set cls)))
      in if neg then \<not> hit else hit)"

definition atBoundary :: "char option \<Rightarrow> string \<Rightarrow> bool" where
  "atBoundary p r =
     ((case p of None \<Rightarrow> False | Some c \<Rightarrow> isWordChar c) \<noteq>
      (case r of [] \<Rightarrow> False | c # _ \<Rightarrow> isWordChar c))"

function ms :: "bool \<Rightarrow> rx \<Rightarrow> mstate \<Rightarrow> mstate list" where
  "ms ci REps st = [st]"
| "ms ci (RLit c) (p, r, cs) =
     (case r of [] \<Rightarrow> [] | x # xs \<Rightarrow> if litMatches ci c x then [(Some x, xs, cs)] else [])"
| "ms ci (RCls neg cls) (p, r, cs) =
     (case r of [] \<Rightarrow> [] | x # xs \<Rightarrow> if clsMatches ci neg cls x then [(Some x, xs, cs)] else [])"
| "ms ci (RSeq a b) st = concat (map (ms ci b) (ms ci a st))"
| "ms ci (RAlt a b) st = ms ci a st @ ms ci b st"
| "ms ci (RStar a) (p, r, cs) =
     concat (map (\<lambda>st'. if length (fst (snd st')) < length r then ms ci (RStar a) st' else [])
                 (ms ci a (p, r, cs))) @ [(p, r, cs)]"
| "ms ci (RGrp n a) (p, r, cs) =
     map (\<lambda>(p', r', cs'). (p', r', (n, take (length r - length r') r) # cs')) (ms ci a (p, r, cs))"
| "ms ci RWordB (p, r, cs) = (if atBoundary p r then [(p, r, cs)] else [])"
| "ms ci RBol (p, r, cs) = (if p = None then [(p, r, cs)] else [])"
  by pat_completeness auto
termination
  by (relation "measures [\<lambda>(ci, a, st). size a, \<lambda>(ci, a, st). length (fst (snd st))]") auto

text \<open>Derived forms: sequences, literal words, alternatives, \<open>+\<close>, \<open>?\<close>, \<open>{n}\<close>, \<open>\d\<close>, \<open>\s\<close>.\<close>

definition RSeqs :: "rx list \<Rightarrow> rx" where
  "RSeqs rs = foldr RSeq rs REps"

definition RStr :: "string \<Rightarrow> rx" where
  "RStr s = RSeqs (map RLit s)"

definition RAlts :: "rx list \<Rightarrow> rx" where
  "RAlts rs = foldr RAlt rs (RCls False [])"

definition RPlus :: "rx \<Rightarrow> rx" where
  "RPlus r = RSeq r (RStar r)"

definition ROpt :: "rx \<Rightarrow> rx" where
  "ROpt r = RAlt r REps"

definition RRep :: "nat \<Rightarrow> rx \<Rightarrow> rx" where
  "RRep n r = RSeqs (replicate n r)"

definition RDigit :: rx where
  "RDigit = RCls False digits"

definition RSpace :: rx where
  "RSpace = RCls False whitespace"

text \<open>
  \<open>rxSearch\<close> is the search of \<open>RegExp.prototype.exec\<close>: the leftmost position at which
  the pattern matches, with the first match there. It returns the input from the start of
  the match and the matcher state at its end.
\<close>

fun rxSearch :: "bool \<Rightarrow> rx \<Rightarrow> char option \<Rightarrow> string \<Rightarrow> (string \<times> mstate) option" where
  "rxSearch ci r p [] = (case ms ci r (p, [], []) of st # _ \<Rightarrow> Some ([], st) | [] \<Rightarrow> None)"
| "rxSearch ci r p (x # xs) =
     (case ms ci r (p, x # xs, []) of
        st # _ \<Rightarrow> Some (x # xs, st)
      | [] \<Rightarrow> rxSearch ci r (Some x) xs)"

record rxMatch =
  whole :: string
  groups :: "(nat \<times> string) list"

definition mkMatch :: "string \<times> mstate \<Rightarrow> rxMatch" where
  "mkMatch sm =
     (case sm of (start, (p, rest, cs)) \<Rightarrow>
        \<lparr>whole = take (length start - length rest) start, groups = cs\<rparr>)"

definition grp :: "rxMatch \<Rightarrow> nat \<Rightarrow> string option" where
  "grp m n = map_of (groups m) n"

text \<open>\<open>str.match(re)\<close> for a pattern without the \<open>g\<close> flag; \<open>ci\<close> is the \<open>i\<close> flag.\<close>

definition rxExec :: "bool \<Rightarrow> rx \<Rightarrow> string \<Rightarrow> rxMatch option" where
  "rxExec ci r s = map_option mkMatch (rxSearch ci r None s)"

text \<open>
  \<open>str.matchAll(re)\<close>, and the \<open>while ((match = re.exec(str)) !== null)\<close> loop, for a
  pattern with the \<open>g\<close> flag: the search resumes where the last match ended, one
  character further after an empty match. The test \<open>length t < length s\<close> always holds;
  it is there for the termination proof.
\<close>

function rxMatchAll :: "bool \<Rightarrow> rx \<Rightarrow> char option \<Rightarrow> string \<Rightarrow> rxMatch list" where
  "rxMatchAll ci r p s =
     (case rxSearch ci r p s of
        None \<Rightarrow> []
      | Some (start, (p', rest, cs)) \<Rightarrow>
          mkMatch (start, (p', rest, cs)) #
          (case (if length rest < length start then Some (p', rest)
                 else (case rest of [] \<Rightarrow> None | x # xs \<Rightarrow> Some (Some x, xs))) of
             None \<Rightarrow> []
           | Some (q, t) \<Rightarrow> if length t < length s then rxMatchAll ci r q t else []))"
  by pat_completeness auto
termination
  by (relation "measure (\<lambda>(ci, r, p, s). length s)") auto

section \<open>Data model\<close>

text \<open>
  Extracted values are JavaScript values: pattern extraction produces strings, numbers,
  arrays of strings and allowed-value entries; the AI extractor passes on whatever JSON
  value the provider sent. Confidences and thresholds are real numbers.
\<close>

datatype jsvalue =
    JNull
  | JBool bool
  | JNum real
  | JStr string
  | JUndefined
  | JNaN
  | JArr "jsvalue list"
  | JObj "(string \<times> jsvalue) list"

text \<open>\<open>allowedValues?: (string | JiraFieldOption)[]\<close>, an option being \<open>{id?, name?, value?}\<close>.\<close>

datatype allowedValue =
    AStr string
  | AOpt "string option" "string option" "string option"

record JiraField =
  fld_id :: string
  fld_name :: string
  fld_type :: string
  required :: bool
  allowedValues :: "allowedValue list option"
  description :: "string option"

datatype extractionSource = ByAi | ByPattern | ByDefault

text \<open>
  The interface declares \<open>fieldId\<close> a string. The pattern extractor stores strings; the AI
  extractor stores whatever truthy value the response holds, so the field is a
  JavaScript value. \<open>confidence\<close> is held as the number the stored value converts to,
  which is what every comparison in the code reads.
\<close>

record ExtractedFieldValue =
  fieldId :: jsvalue
  val :: jsvalue
  confidence :: real
  extractionMethod :: extractionSource

text \<open>What the source can throw: the explicit errors, and type errors of property access.\<close>

datatype error =
    EmptyResponse
  | ProviderFailure string
  | TypeError

text \<open>The clock: \<open>new Date().getFullYear()\<close> and \<open>new Date().getMonth()\<close> (0 to 11).\<close>

record date =
  fullYear :: nat
  month :: nat

definition currentQuarter :: "date \<Rightarrow> nat" where
  "currentQuarter now = (month now + 1 + 2) div 3"

definition jsOfAllowed :: "allowedValue \<Rightarrow> jsvalue" where
  "jsOfAllowed a =
     (case a of
        AStr s \<Rightarrow> JStr s
      | AOpt i n v \<Rightarrow>
          JObj (List.map_filter (\<lambda>(k, x). map_option (\<lambda>y. (k, JStr y)) x)
                  [(''id'', i), (''name'', n), (''value'', v)]))"

section \<open>Pattern extractor\<close>

subsection \<open>The patterns\<close>

definition priorityPattern :: rx where
  "priorityPattern =
     RSeqs [RWordB,
            RGrp 1 (RAlts (map RStr [''highest'', ''high'', ''medium'', ''low'', ''lowest'',
                                      ''critical'', ''major'', ''minor'', ''trivial''])),
            RWordB]"

definition quarterPatterns :: "rx list" where
  "quarterPatterns =
     [RSeqs [RWordB, RGrp 1 (RSeq (RLit CHR ''q'') (RCls False ''1234'')),
             RStar RSpace, RGrp 2 (RRep 4 RDigit), RWordB],
      RSeqs [RWordB, RStr ''quarter'', RStar RSpace, RGrp 1 (RCls False ''1234''),
             RStar RSpace, RGrp 2 (RRep 4 RDigit), RWordB],
      RSeqs [RWordB, RGrp 1 (RCls False ''1234''),
             RAlts [RStr ''st'', RStr ''nd'', RStr ''rd'', RStr ''th''],
             RStar RSpace, RStr ''quarter'', RStar RSpace, RGrp 2 (RRep 4 RDigit), RWordB],
      RSeqs [RWordB, RGrp 1 (RAlts [RStr ''first'', RStr ''second'', RStr ''third'', RStr ''fourth'']),
             RStar RSpace, RStr ''quarter'', RStar RSpace, RGrp 2 (RRep 4 RDigit), RWordB],
      RSeqs [RWordB, RGrp 1 (RSeq (RLit CHR ''q'') (RCls False ''1234'')), RWordB],
      RSeqs [RWordB, RStr ''quarter'', RStar RSpace, RGrp 1 (RCls False ''1234''),
             RWordB]]"

definition yearPattern :: rx where
  "yearPattern = RSeqs [RWordB, RGrp 1 (RRep 4 RDigit), RWordB]"

definition internalPattern :: rx where
  "internalPattern =
     RSeqs [RWordB,
            RGrp 1 (RAlts (map RStr [''internal'', ''private'', ''confidential'', ''company'',
                                      ''team'', ''staff''])),
            RWordB]"

definition externalPattern :: rx where
  "externalPattern =
     RSeqs [RWordB,
            RGrp 1 (RAlts (map RStr [''external'', ''public'', ''customer'', ''client'',
                                      ''visible'', ''roadmap'', ''showcase''])),
            RWordB]"

definition roadmapPattern :: rx where
  "roadmapPattern =
     RSeqs [RWordB,
            RGrp 1 (RAlts (map RStr [''roadmap'', ''public'', ''external'', ''visible'', ''show''])),
            RWordB]"

definition pointsPattern :: rx where
  "pointsPattern =
     RSeqs [RWordB, RGrp 1 (RPlus RDigit), RStar RSpace,
            ROpt (RSeq (RStr ''story'') (RStar RSpace)),
            RStr ''point'', ROpt (RLit CHR ''s''), RWordB]"

definition epicPattern :: rx where
  "epicPattern =
     RSeqs [RWordB,
            RGrp 1 (RSeqs [RPlus (RCls False upperAZ), RLit CHR ''-'', RPlus RDigit]),
            RWordB]"

text \<open>The four label patterns (all with the \<open>g\<close> flag), each with whether it has the \<open>i\<close> flag.\<close>

definition labelPatterns :: "(bool \<times> rx) list" where
  "labelPatterns =
     [(False, RSeqs [RWordB,
                     RGrp 1 (RSeqs [RStr ''20'', RRep 2 RDigit,
                                    RCls False ''qQ'',
                                    RDigit,
                                    RStar (RCls False (lowerAZ @ upperAZ))]),
                     RWordB]),
      (False, RSeqs [RWordB,
                     RGrp 1 (RSeqs [RPlus (RCls False lowerAZ), RLit CHR ''-'',
                                    RPlus (RCls False (lowerAZ @ digits @ ''-''))]),
                     RWordB]),
      (True, RSeqs [RAlts [RStr ''label'', RStr ''tag'', RLit CHR ''#''],
                    RStar RSpace,
                    RStar (RCls False (CHR '':'' # whitespace)),
                    RGrp 1 (RPlus (RCls False (alnum @ ''_-'')))]),
      (False, RSeqs [RWordB,
                     RGrp 1 (RSeqs [RRep 3 (RCls False alnum), RStar (RCls False alnum),
                                    ROpt (RSeq (RStar (RCls False (alnum @ ''_-'')))
                                               (RCls False alnum))]),
                     RWordB])]"

subsection \<open>mapPriorityValue\<close>

definition priorityMap :: "(string \<times> string list) list" where
  "priorityMap =
     [(''highest'', [''highest'', ''critical'', ''1'']),
      (''high'', [''high'', ''major'', ''2'']),
      (''medium'', [''medium'', ''normal'', ''3'']),
      (''low'', [''low'', ''minor'', ''4'']),
      (''lowest'', [''lowest'', ''trivial'', ''5''])]"

text \<open>
  \<open>allowedValues.find(v => v.toLowerCase().includes(mapping.toLowerCase()))\<close>: an entry
  that is an option object has no \<open>toLowerCase\<close>, and the call throws.
\<close>

fun findIncluding :: "string \<Rightarrow> allowedValue list \<Rightarrow> error + string option" where
  "findIncluding m [] = Inr None"
| "findIncluding m (AStr v # vs) =
     (if strIncludes (toLowerCase v) (toLowerCase m) then Inr (Some v) else findIncluding m vs)"
| "findIncluding m (AOpt i n v # vs) = Inl TypeError"

fun firstMapping :: "string list \<Rightarrow> allowedValue list \<Rightarrow> error + string option" where
  "firstMapping [] avs = Inr None"
| "firstMapping (m # mps) avs =
     (case findIncluding m avs of
        Inl e \<Rightarrow> Inl e
      | Inr (Some v) \<Rightarrow> if v \<noteq> [] then Inr (Some v) else firstMapping mps avs
      | Inr None \<Rightarrow> firstMapping mps avs)"

definition mapPriorityValue :: "string \<Rightarrow> allowedValue list option \<Rightarrow> error + string" where
  "mapPriorityValue priority avs =
     (case avs of
        None \<Rightarrow> Inr priority
      | Some vs \<Rightarrow>
          (let mappings = (case map_of priorityMap (toLowerCase priority) of
                             Some l \<Rightarrow> l | None \<Rightarrow> [priority])
           in case firstMapping mappings vs of
                Inl e \<Rightarrow> Inl e
              | Inr (Some v) \<Rightarrow> Inr v
              | Inr None \<Rightarrow> Inr priority))"

subsection \<open>Quarter fields\<close>

definition allowedIncludes :: "allowedValue list option \<Rightarrow> string \<Rightarrow> bool" where
  "allowedIncludes avs v = (case avs of None \<Rightarrow> False | Some vs \<Rightarrow> AStr v \<in> set vs)"

text \<open>
  The body of the loop over \<open>quarterPatterns\<close> up to \<open>quarterValue\<close>. Group 1 is part of
  every match of these patterns; were it undefined, \<open>quarter.toLowerCase()\<close> would throw.
\<close>

definition quarterValueOf :: "date \<Rightarrow> rxMatch \<Rightarrow> error + string" where
  "quarterValueOf now m =
     (case grp m 1 of
        None \<Rightarrow> Inl TypeError
      | Some q0 \<Rightarrow>
          (let year = (case grp m 2 of
                         Some y \<Rightarrow> if y \<noteq> [] then y else showNat (fullYear now)
                       | None \<Rightarrow> showNat (fullYear now));
               q1 = (if q0 = ''first'' then ''1''
                     else if q0 = ''second'' then ''2''
                     else if q0 = ''third'' then ''3''
                     else if q0 = ''fourth'' then ''4''
                     else q0);
               q2 = (if startsWith (toLowerCase q1) ''q'' then drop 1 q1 else q1)
           in Inr (''Q'' @ q2 @ '' '' @ year)))"

fun quarterLoop :: "date \<Rightarrow> string \<Rightarrow> allowedValue list option \<Rightarrow> rx list \<Rightarrow> error + string option" where
  "quarterLoop now d avs [] = Inr None"
| "quarterLoop now d avs (p # ps) =
     (case rxExec True p d of
        None \<Rightarrow> quarterLoop now d avs ps
      | Some m \<Rightarrow>
          (case quarterValueOf now m of
             Inl e \<Rightarrow> Inl e
           | Inr quarterValue \<Rightarrow>
               if allowedIncludes avs quarterValue then Inr (Some quarterValue)
               else quarterLoop now d avs ps))"

definition yearFallback :: "date \<Rightarrow> string \<Rightarrow> allowedValue list option \<Rightarrow> string option" where
  "yearFallback now d avs =
     (case rxExec False yearPattern d of
        None \<Rightarrow> None
      | Some yearMatch \<Rightarrow>
          (let quarterValue = ''Q'' @ showNat (currentQuarter now) @ '' '' @
                 (case grp yearMatch 1 of Some y \<Rightarrow> y | None \<Rightarrow> ''undefined'')
           in if allowedIncludes avs quarterValue then Some quarterValue else None))"

definition extractQuarter ::
  "date \<Rightarrow> string \<Rightarrow> allowedValue list option \<Rightarrow> error + (jsvalue \<times> real) option" where
  "extractQuarter now d avs =
     (case quarterLoop now d avs quarterPatterns of
        Inl e \<Rightarrow> Inl e
      | Inr (Some quarterValue) \<Rightarrow> Inr (Some (JStr quarterValue, 0.8))
      | Inr None \<Rightarrow>
          (case yearFallback now d avs of
             Some quarterValue \<Rightarrow> Inr (Some (JStr quarterValue, 0.6))
           | None \<Rightarrow>
               (let quarterValue = ''Q'' @ showNat (currentQuarter now) @ '' '' @
                      showNat (fullYear now)
                in if allowedIncludes avs quarterValue then Inr (Some (JStr quarterValue, 0.4))
                   else Inr None)))"

subsection \<open>Roadmap fields\<close>

definition extractInternalExternalValue :: "string \<Rightarrow> ExtractedFieldValue list" where
  "extractInternalExternalValue d =
     (let lowerDescription = toLowerCase d;
          values = (if rxExec False internalPattern lowerDescription \<noteq> None
                    then [JStr ''Internal''] else []) @
                   (if rxExec False externalPattern lowerDescription \<noteq> None
                    then [JStr ''External''] else [])
      in if values \<noteq> []
         then [\<lparr>fieldId = JStr ''customfield_26360'', val = JArr values, confidence = 0.8,
                extractionMethod = ByPattern\<rparr>]
         else [])"

definition extractRoadmapValue :: "string \<Rightarrow> ExtractedFieldValue list" where
  "extractRoadmapValue d =
     (case rxExec False roadmapPattern (toLowerCase d) of
        None \<Rightarrow> []
      | Some roadmapMatch \<Rightarrow>
          [\<lparr>fieldId = JStr ''customfield_26360'', val = JStr (whole roadmapMatch),
            confidence = 0.8, extractionMethod = ByPattern\<rparr>])"

subsection \<open>Components and labels\<close>

fun findComponent :: "string \<Rightarrow> allowedValue list \<Rightarrow> allowedValue option" where
  "findComponent lowerDescription [] = None"
| "findComponent lowerDescription (a # as) =
     (let componentName = (case a of
                             AStr s \<Rightarrow> toLowerCase s
                           | AOpt i n v \<Rightarrow> (case v of Some x \<Rightarrow> toLowerCase x | None \<Rightarrow> []))
      in if componentName \<noteq> [] \<and> strIncludes lowerDescription componentName then Some a
         else findComponent lowerDescription as)"

definition commonWords :: "string list" where
  "commonWords =
     [''the'', ''and'', ''for'', ''are'', ''but'', ''not'', ''you'', ''all'', ''can'', ''had'',
      ''her'', ''was'', ''one'', ''our'', ''out'', ''day'', ''get'', ''has'', ''him'', ''his'',
      ''how'', ''its'', ''may'', ''new'', ''now'', ''old'', ''see'', ''two'', ''way'', ''who'',
      ''boy'', ''did'', ''man'', ''end'', ''why'', ''let'', ''put'', ''say'', ''she'', ''too'',
      ''use'', ''that'', ''with'', ''have'', ''this'', ''will'', ''your'', ''from'', ''they'',
      ''know'', ''want'', ''been'', ''good'', ''much'', ''some'', ''time'', ''very'', ''when'',
      ''come'', ''here'', ''just'', ''like'', ''long'', ''make'', ''many'', ''over'', ''such'',
      ''take'', ''than'', ''them'', ''well'', ''were'', ''what'', ''would'', ''there'',
      ''could'', ''other'', ''after'', ''first'', ''never'', ''these'', ''think'', ''where'',
      ''being'', ''every'', ''great'', ''might'', ''shall'', ''still'', ''those'', ''under'',
      ''while'', ''years'', ''before'', ''should'', ''through'', ''system'', ''process'',
      ''project'', ''service'', ''feature'', ''design'', ''development'', ''implementation'',
      ''management'', ''application'', ''solution'']"

definition isCommonWord :: "string \<Rightarrow> bool" where
  "isCommonWord w = (toLowerCase w \<in> set commonWords)"

text \<open>One match of a label pattern: \<open>extractedLabels\<close> is a set that keeps insertion order.\<close>

definition addLabel :: "string list \<Rightarrow> rxMatch \<Rightarrow> string list" where
  "addLabel extractedLabels m =
     (case grp m 1 of
        None \<Rightarrow> extractedLabels
      | Some label \<Rightarrow>
          if label \<noteq> [] \<and> \<not> isCommonWord label \<and> length label \<ge> 3
          then (let l = toLowerCase label
                in if l \<in> set extractedLabels then extractedLabels else extractedLabels @ [l])
          else extractedLabels)"

definition extractLabels :: "string \<Rightarrow> string list" where
  "extractLabels d =
     foldl (\<lambda>acc (ci, pat). foldl addLabel acc (rxMatchAll ci pat None d)) [] labelPatterns"

subsection \<open>extractWithPatterns\<close>

text \<open>
  One iteration of the loop over the fields: it ends with a value for the field or none,
  with a \<open>return\<close> out of the whole function (the roadmap branch), or with an exception.
\<close>

datatype fieldOutcome =
    Extracted "(jsvalue \<times> real) option"
  | Returned "ExtractedFieldValue list"
  | Threw error

definition extractField :: "date \<Rightarrow> string \<Rightarrow> JiraField \<Rightarrow> fieldOutcome" where
  "extractField now d field =
     (let lowerDescription = toLowerCase d;
          fieldName = toLowerCase (fld_name field)
      in
      if strIncludes fieldName ''priority'' then
        (case rxExec False priorityPattern lowerDescription of
           None \<Rightarrow> Extracted None
         | Some priorityMatch \<Rightarrow>
             (case grp priorityMatch 1 of
                None \<Rightarrow> (case allowedValues field of
                            None \<Rightarrow> Extracted (Some (JUndefined, 0.8))
                          | Some vs \<Rightarrow> Threw TypeError)
              | Some w \<Rightarrow>
                  (case mapPriorityValue w (allowedValues field) of
                     Inl e \<Rightarrow> Threw e
                   | Inr v \<Rightarrow> Extracted (Some (JStr v, 0.8)))))
      else if strIncludes fieldName ''quarter'' \<or> fld_id field = ''customfield_26362'' then
        (case extractQuarter now d (allowedValues field) of
           Inl e \<Rightarrow> Threw e
         | Inr r \<Rightarrow> Extracted r)
      else if strIncludes fieldName ''roadmap'' \<or> strIncludes fieldName ''include'' \<or>
              fld_id field = ''customfield_26360'' then
        (if fld_id field = ''customfield_26360'' then Returned (extractInternalExternalValue d)
         else Returned (extractRoadmapValue d))
      else if strIncludes fieldName ''story'' \<and> strIncludes fieldName ''point'' then
        (case rxExec True pointsPattern lowerDescription of
           None \<Rightarrow> Extracted None
         | Some pointsMatch \<Rightarrow>
             (case grp pointsMatch 1 of
                None \<Rightarrow> Extracted (Some (JNaN, 0.9))
              | Some ds \<Rightarrow> Extracted (Some (JNum (real (parseInt ds)), 0.9))))
      else if strIncludes fieldName ''component'' then
        (case allowedValues field of
           None \<Rightarrow> Extracted None
         | Some vs \<Rightarrow>
             (case findComponent lowerDescription vs of
                None \<Rightarrow> Extracted None
              | Some a \<Rightarrow> Extracted (Some (jsOfAllowed a, 0.7))))
      else if strIncludes fieldName ''epic'' then
        (case rxExec False epicPattern lowerDescription of
           None \<Rightarrow> Extracted None
         | Some epicMatch \<Rightarrow>
             (case grp epicMatch 1 of
                None \<Rightarrow> Extracted (Some (JUndefined, 0.8))
              | Some k \<Rightarrow> Extracted (Some (JStr k, 0.8))))
      else if strIncludes fieldName ''label'' then
        (let extractedLabels = extractLabels d
         in if extractedLabels \<noteq> [] then Extracted (Some (JArr (map JStr extractedLabels), 0.7))
            else Extracted None)
      else Extracted None)"

fun extractLoop ::
  "date \<Rightarrow> string \<Rightarrow> JiraField list \<Rightarrow> ExtractedFieldValue list \<Rightarrow> error + ExtractedFieldValue list" where
  "extractLoop now d [] extractedFields = Inr extractedFields"
| "extractLoop now d (field # rest) extractedFields =
     (case extractField now d field of
        Threw e \<Rightarrow> Inl e
      | Returned r \<Rightarrow> Inr r
      | Extracted None \<Rightarrow> extractLoop now d rest extractedFields
      | Extracted (Some (v, c)) \<Rightarrow>
          extractLoop now d rest
            (extractedFields @
             [\<lparr>fieldId = JStr (fld_id field), val = v, confidence = c,
               extractionMethod = ByPattern\<rparr>]))"

definition extractWithPatterns ::
  "date \<Rightarrow> string \<Rightarrow> JiraField list \<Rightarrow> error + ExtractedFieldValue list" where
  "extractWithPatterns now d jiraFields = extractLoop now d jiraFields []"

section \<open>AI extractor\<close>

text \<open>
  The provider call and the built-in functions of JavaScript are outside the repository.
  The provider's reply (the response text, or the exception of \<open>callAIProvider\<close>) is an
  input of the model. \<open>JSON.parse\<close> is a parameter: \<open>None\<close> where it throws a syntax
  error, and otherwise the parsed value, an object as the list of its members without
  repeated keys.
\<close>

definition truthy :: "jsvalue \<Rightarrow> bool" where
  "truthy v =
     (case v of
        JNull \<Rightarrow> False
      | JBool b \<Rightarrow> b
      | JNum x \<Rightarrow> x \<noteq> 0
      | JStr s \<Rightarrow> s \<noteq> []
      | JUndefined \<Rightarrow> False
      | JNaN \<Rightarrow> False
      | JArr xs \<Rightarrow> True
      | JObj kvs \<Rightarrow> True)"

text \<open>Reading a property of a value that is neither \<open>null\<close> nor \<open>undefined\<close>.\<close>

definition jsGet :: "jsvalue \<Rightarrow> string \<Rightarrow> jsvalue" where
  "jsGet v k =
     (case v of
        JObj kvs \<Rightarrow> (case map_of kvs k of Some x \<Rightarrow> x | None \<Rightarrow> JUndefined)
      | _ \<Rightarrow> JUndefined)"

definition nullish :: "jsvalue \<Rightarrow> bool" where
  "nullish v = (case v of JNull \<Rightarrow> True | JUndefined \<Rightarrow> True | _ \<Rightarrow> False)"

text \<open>
  The conversion to a number behind \<open>extraction.confidence > 0.5\<close>; \<open>None\<close> is \<open>NaN\<close>.
  For a string, an array or an object the conversion is JavaScript's own (\<open>'0.9'\<close>
  becomes 0.9), a parameter of the model like \<open>JSON.parse\<close>.
\<close>

definition toNumber :: "(jsvalue \<Rightarrow> real option) \<Rightarrow> jsvalue \<Rightarrow> real option" where
  "toNumber convert v =
     (case v of
        JNull \<Rightarrow> Some 0
      | JBool b \<Rightarrow> Some (if b then 1 else 0)
      | JNum x \<Rightarrow> Some x
      | JStr s \<Rightarrow> convert v
      | JUndefined \<Rightarrow> None
      | JNaN \<Rightarrow> None
      | JArr xs \<Rightarrow> convert v
      | JObj kvs \<Rightarrow> convert v)"

text \<open>
  The loop over \<open>result.extractions\<close>. An entry is kept when its \<open>fieldId\<close> is truthy, its
  \<open>value\<close> is not \<open>null\<close> and its \<open>confidence\<close>, as a number, exceeds 0.5. Reading a
  property of an entry that is \<open>null\<close> throws.
\<close>

fun collectExtractions ::
  "(jsvalue \<Rightarrow> real option) \<Rightarrow> jsvalue list \<Rightarrow> ExtractedFieldValue list \<Rightarrow>
   error + ExtractedFieldValue list" where
  "collectExtractions convert [] extractedFields = Inr extractedFields"
| "collectExtractions convert (extraction # rest) extractedFields =
     (if nullish extraction then Inl TypeError
      else
        (case toNumber convert (jsGet extraction ''confidence'') of
           None \<Rightarrow> collectExtractions convert rest extractedFields
         | Some c \<Rightarrow>
             if truthy (jsGet extraction ''fieldId'') \<and> jsGet extraction ''value'' \<noteq> JNull \<and>
                c > 0.5
             then collectExtractions convert rest
                    (extractedFields @
                     [\<lparr>fieldId = jsGet extraction ''fieldId'', val = jsGet extraction ''value'',
                       confidence = c, extractionMethod = ByAi\<rparr>])
             else collectExtractions convert rest extractedFields))"

definition extractWithAI ::
  "(string \<Rightarrow> jsvalue option) \<Rightarrow> (jsvalue \<Rightarrow> real option) \<Rightarrow> error + string \<Rightarrow>
   error + ExtractedFieldValue list" where
  "extractWithAI parse convert reply =
     (case reply of
        Inl e \<Rightarrow> Inl e
      | Inr response \<Rightarrow>
          if response = [] \<or> trim response = [] then Inl EmptyResponse
          else
            (case parse response of
               None \<Rightarrow> Inr []
             | Some result \<Rightarrow>
                 if nullish result then Inl TypeError
                 else
                   (case jsGet result ''extractions'' of
                      JArr extractions \<Rightarrow> collectExtractions convert extractions []
                    | _ \<Rightarrow> Inr [])))"

section \<open>Suggestion ranker\<close>

function splitWs :: "string \<Rightarrow> string \<Rightarrow> string list" where
  "splitWs cur [] = [rev cur]"
| "splitWs cur (c # cs) =
     (if isSpace c then rev cur # splitWs [] (dropWhile isSpace cs) else splitWs (c # cur) cs)"
  by pat_completeness auto
termination
  by (relation "measure (\<lambda>(cur, s). length s)") (auto simp: le_imp_less_Suc length_dropWhile_le)

definition suggestionText :: "allowedValue \<Rightarrow> string" where
  "suggestionText a =
     (case a of
        AStr s \<Rightarrow> toLowerCase s
      | AOpt i n v \<Rightarrow>
          (let fromValue = (case v of Some x \<Rightarrow> toLowerCase x | None \<Rightarrow> []);
               fromName = (case n of Some x \<Rightarrow> toLowerCase x | None \<Rightarrow> [])
           in if fromValue \<noteq> [] then fromValue else if fromName \<noteq> [] then fromName else []))"

definition suggestionScore :: "JiraField \<Rightarrow> string \<Rightarrow> allowedValue \<Rightarrow> nat" where
  "suggestionScore field lowerDescription a =
     (let v = suggestionText a in
      (if strIncludes lowerDescription v then 10 else 0) +
      3 * length (filter (\<lambda>w. length w > 2 \<and> strIncludes lowerDescription w) (splitWs [] v)) +
      (if strIncludes (toLowerCase (fld_name field)) ''priority'' then
         (if strIncludes lowerDescription ''urgent'' \<and> strIncludes v ''high'' then 5 else 0) +
         (if strIncludes lowerDescription ''important'' \<and> strIncludes v ''high'' then 3 else 0) +
         (if strIncludes lowerDescription ''later'' \<and> strIncludes v ''low'' then 3 else 0)
       else 0))"

definition generateSuggestions :: "JiraField \<Rightarrow> string \<Rightarrow> allowedValue list" where
  "generateSuggestions field d =
     (case allowedValues field of
        None \<Rightarrow> []
      | Some vs \<Rightarrow>
          (let lowerDescription = toLowerCase d;
               scored = filter (\<lambda>(a, score). score > 0)
                          (map (\<lambda>a. (a, suggestionScore field lowerDescription a)) vs)
           in map fst (take 5 (sort_key (\<lambda>(a, score). - int score) scored))))"

definition jsToString :: "allowedValue \<Rightarrow> string" where
  "jsToString a = (case a of AStr s \<Rightarrow> s | AOpt i n v \<Rightarrow> ''[object Object]'')"

definition generateFieldSuggestion :: "JiraField \<Rightarrow> string \<Rightarrow> string" where
  "generateFieldSuggestion jiraField d =
     (let suggestions = generateSuggestions jiraField d
      in if suggestions \<noteq> []
         then ''Consider: '' @ joinWith '', '' (map jsToString (take 3 suggestions))
         else [])"

section \<open>Extraction policy engine\<close>

text \<open>
  \<open>FieldExtractionConfig\<close> and \<open>ExtractionPreferences\<close> are declared outside the files at
  hand; the records have the fields the engine reads. \<open>OtherMode\<close> stands for a stored
  configuration whose mode is none of the three (the \<open>default:\<close> of the \<open>switch\<close>).
\<close>

datatype extractionChoice = UseAi | UsePattern | UseManual

datatype extractionMode = AutoApply | AlwaysConfirm | ManualOnly | OtherMode

record FieldExtractionConfig =
  jiraFieldId :: string
  extractionEnabled :: bool
  configuredMethod :: extractionChoice
  extractionMode :: extractionMode
  confidenceThreshold :: real
  displayName :: string
  requiredForSubmission :: bool

record ExtractionPreferences =
  defaultMethod :: extractionChoice
  globalConfidenceThreshold :: real
  requireConfirmationForAll :: bool
  enableSmartDefaults :: bool

record ExtractionCandidate = ExtractedFieldValue +
  suggestion :: string

record extractionSummary =
  totalFields :: nat
  autoAppliedCount :: nat
  confirmationCount :: nat
  manualCount :: nat
  skippedCount :: nat

record EnhancedExtractionResult =
  autoApplied :: "string \<rightharpoonup> jsvalue"
  requiresConfirmation :: "string \<rightharpoonup> ExtractionCandidate"
  manualFields :: "string list"
  skippedFields :: "string list"
  summary :: extractionSummary

text \<open>
  What the engine gets from outside: the clock, the provider (its reply to the prompt
  built from a description and a list of fields, for a provider name and a key),
  \<open>JSON.parse\<close> and the conversion of strings, arrays and objects to numbers.
\<close>

record env =
  clock :: date
  callAIProvider :: "string \<Rightarrow> JiraField list \<Rightarrow> string \<Rightarrow> string \<Rightarrow> error + string"
  jsonParse :: "string \<Rightarrow> jsvalue option"
  numberOf :: "jsvalue \<Rightarrow> real option"

text \<open>\<open>aiProvider && apiKey\<close> for two optional strings.\<close>

definition aiAvailable :: "string option \<Rightarrow> string option \<Rightarrow> (string \<times> string) option" where
  "aiAvailable aiProvider apiKey =
     (case (aiProvider, apiKey) of
        (Some p, Some k) \<Rightarrow> if p \<noteq> [] \<and> k \<noteq> [] then Some (p, k) else None
      | _ \<Rightarrow> None)"

definition firstAbove :: "ExtractedFieldValue list \<Rightarrow> real \<Rightarrow> ExtractedFieldValue option" where
  "firstAbove extracted threshold =
     (case extracted of
        [] \<Rightarrow> None
      | x # _ \<Rightarrow> if confidence x \<ge> threshold then Some x else None)"

text \<open>
  \<open>extractSingleFieldValue\<close>: the \<open>try\<close> block as a computation that may throw, and the
  \<open>catch\<close> that turns every exception into \<open>null\<close>.
\<close>

definition trySingleFieldValue ::
  "env \<Rightarrow> string \<Rightarrow> JiraField \<Rightarrow> FieldExtractionConfig \<Rightarrow> string option \<Rightarrow> string option \<Rightarrow>
   error + ExtractedFieldValue option" where
  "trySingleFieldValue e d jiraField fieldConfig aiProvider apiKey =
     (case (if configuredMethod fieldConfig = UseAi
            then (case aiAvailable aiProvider apiKey of
                    None \<Rightarrow> Inr None
                  | Some (p, k) \<Rightarrow>
                      (case extractWithAI (jsonParse e) (numberOf e)
                              (callAIProvider e d [jiraField] p k) of
                         Inl err \<Rightarrow> Inl err
                       | Inr aiExtracted \<Rightarrow>
                           Inr (firstAbove aiExtracted (confidenceThreshold fieldConfig))))
            else Inr None) of
        Inl err \<Rightarrow> Inl err
      | Inr (Some x) \<Rightarrow> Inr (Some x)
      | Inr None \<Rightarrow>
          if configuredMethod fieldConfig = UseAi \<or> configuredMethod fieldConfig = UsePattern
          then (case extractWithPatterns (clock e) d [jiraField] of
                  Inl err \<Rightarrow> Inl err
                | Inr patternExtracted \<Rightarrow>
                    Inr (firstAbove patternExtracted (confidenceThreshold fieldConfig)))
          else Inr None)"

definition extractSingleFieldValue ::
  "env \<Rightarrow> string \<Rightarrow> JiraField \<Rightarrow> FieldExtractionConfig \<Rightarrow> string option \<Rightarrow> string option \<Rightarrow>
   ExtractedFieldValue option" where
  "extractSingleFieldValue e d jiraField fieldConfig aiProvider apiKey =
     (case trySingleFieldValue e d jiraField fieldConfig aiProvider apiKey of
        Inl err \<Rightarrow> None
      | Inr r \<Rightarrow> r)"

definition shouldAutoApplyField ::
  "FieldExtractionConfig \<Rightarrow> ExtractionCandidate \<Rightarrow> ExtractionPreferences \<Rightarrow> bool" where
  "shouldAutoApplyField fieldConfig candidate preferences =
     (if requireConfirmationForAll preferences then False
      else (case extractionMode fieldConfig of
              AutoApply \<Rightarrow> confidence candidate \<ge> confidenceThreshold fieldConfig
            | AlwaysConfirm \<Rightarrow> False
            | ManualOnly \<Rightarrow> False
            | OtherMode \<Rightarrow> False))"

definition trySingleFieldWithDefaults ::
  "env \<Rightarrow> string \<Rightarrow> JiraField \<Rightarrow> ExtractionPreferences \<Rightarrow> string option \<Rightarrow> string option \<Rightarrow>
   error + ExtractedFieldValue option" where
  "trySingleFieldWithDefaults e d jiraField preferences aiProvider apiKey =
     (case (if defaultMethod preferences = UseAi
            then (case aiAvailable aiProvider apiKey of
                    None \<Rightarrow> Inr None
                  | Some (p, k) \<Rightarrow>
                      (case extractWithAI (jsonParse e) (numberOf e)
                              (callAIProvider e d [jiraField] p k) of
                         Inl err \<Rightarrow> Inl err
                       | Inr aiExtracted \<Rightarrow>
                           Inr (case aiExtracted of [] \<Rightarrow> None | x # _ \<Rightarrow> Some x)))
            else Inr None) of
        Inl err \<Rightarrow> Inl err
      | Inr (Some x) \<Rightarrow> Inr (Some x)
      | Inr None \<Rightarrow>
          (case extractWithPatterns (clock e) d [jiraField] of
             Inl err \<Rightarrow> Inl err
           | Inr patternExtracted \<Rightarrow>
               Inr (case patternExtracted of [] \<Rightarrow> None | x # _ \<Rightarrow> Some x)))"

definition extractSingleFieldWithDefaults ::
  "env \<Rightarrow> string \<Rightarrow> JiraField \<Rightarrow> ExtractionPreferences \<Rightarrow> string option \<Rightarrow> string option \<Rightarrow>
   ExtractedFieldValue option" where
  "extractSingleFieldWithDefaults e d jiraField preferences aiProvider apiKey =
     (case trySingleFieldWithDefaults e d jiraField preferences aiProvider apiKey of
        Inl err \<Rightarrow> None
      | Inr r \<Rightarrow> r)"

definition mkCandidate :: "JiraField \<Rightarrow> string \<Rightarrow> ExtractedFieldValue \<Rightarrow> ExtractionCandidate" where
  "mkCandidate jiraField d extractedValue =
     \<lparr>fieldId = JStr (fld_id jiraField), val = val extractedValue,
      confidence = confidence extractedValue,
      extractionMethod = extractionMethod extractedValue,
      suggestion = generateFieldSuggestion jiraField d\<rparr>"

text \<open>
  \<open>processFieldWithDefaults\<close> gets the four buckets and fills one of them; the counters
  are local variables of its caller and are not among its parameters.
\<close>

definition processFieldWithDefaults ::
  "env \<Rightarrow> string \<Rightarrow> JiraField \<Rightarrow> ExtractionPreferences \<Rightarrow> string option \<Rightarrow> string option \<Rightarrow>
   EnhancedExtractionResult \<Rightarrow> EnhancedExtractionResult" where
  "processFieldWithDefaults e d jiraField preferences aiProvider apiKey st =
     (case extractSingleFieldWithDefaults e d jiraField preferences aiProvider apiKey of
        None \<Rightarrow> st\<lparr>manualFields := manualFields st @ [fld_id jiraField]\<rparr>
      | Some extractedValue \<Rightarrow>
          if confidence extractedValue \<ge> globalConfidenceThreshold preferences then
            (if requireConfirmationForAll preferences \<or> confidence extractedValue < 0.8
             then st\<lparr>requiresConfirmation :=
                       (requiresConfirmation st)
                         (fld_id jiraField \<mapsto> mkCandidate jiraField d extractedValue)\<rparr>
             else st\<lparr>autoApplied := (autoApplied st)(fld_id jiraField \<mapsto> val extractedValue)\<rparr>)
          else st\<lparr>manualFields := manualFields st @ [fld_id jiraField]\<rparr>)"

text \<open>The body of the loop over \<open>jiraFields\<close> in \<open>extractFieldValuesWithConfig\<close>.\<close>

definition processField ::
  "env \<Rightarrow> string \<Rightarrow> FieldExtractionConfig list \<Rightarrow> ExtractionPreferences \<Rightarrow>
   string option \<Rightarrow> string option \<Rightarrow> EnhancedExtractionResult \<Rightarrow> JiraField \<Rightarrow>
   EnhancedExtractionResult" where
  "processField e d fieldConfigs preferences aiProvider apiKey st jiraField =
     (case find (\<lambda>c. jiraFieldId c = fld_id jiraField) fieldConfigs of
        None \<Rightarrow>
          if \<not> required jiraField then st
          else processFieldWithDefaults e d jiraField preferences aiProvider apiKey
                 (st\<lparr>summary := (summary st)\<lparr>totalFields := totalFields (summary st) + 1\<rparr>\<rparr>)
      | Some config \<Rightarrow>
          (let st1 = st\<lparr>summary := (summary st)\<lparr>totalFields := totalFields (summary st) + 1\<rparr>\<rparr>
           in
           if \<not> extractionEnabled config then
             st1\<lparr>skippedFields := skippedFields st1 @ [fld_id jiraField],
                 summary := (summary st1)\<lparr>skippedCount := skippedCount (summary st1) + 1\<rparr>\<rparr>
           else if configuredMethod config = UseManual \<or> extractionMode config = ManualOnly then
             st1\<lparr>manualFields := manualFields st1 @ [fld_id jiraField],
                 summary := (summary st1)\<lparr>manualCount := manualCount (summary st1) + 1\<rparr>\<rparr>
           else
             (case extractSingleFieldValue e d jiraField config aiProvider apiKey of
                Some extractedValue \<Rightarrow>
                  (let candidate = mkCandidate jiraField d extractedValue
                   in if shouldAutoApplyField config candidate preferences
                      then st1\<lparr>autoApplied :=
                                 (autoApplied st1)(fld_id jiraField \<mapsto> val extractedValue),
                               summary := (summary st1)
                                 \<lparr>autoAppliedCount := autoAppliedCount (summary st1) + 1\<rparr>\<rparr>
                      else st1\<lparr>requiresConfirmation :=
                                 (requiresConfirmation st1)(fld_id jiraField \<mapsto> candidate),
                               summary := (summary st1)
                                 \<lparr>confirmationCount := confirmationCount (summary st1) + 1\<rparr>\<rparr>)
              | None \<Rightarrow>
                  st1\<lparr>manualFields := manualFields st1 @ [fld_id jiraField],
                      summary := (summary st1)\<lparr>manualCount := manualCount (summary st1) + 1\<rparr>\<rparr>)))"

definition initialResult :: EnhancedExtractionResult where
  "initialResult =
     \<lparr>autoApplied = Map.empty, requiresConfirmation = Map.empty, manualFields = [],
      skippedFields = [],
      summary = \<lparr>totalFields = 0, autoAppliedCount = 0, confirmationCount = 0, manualCount = 0,
                 skippedCount = 0\<rparr>\<rparr>"

text \<open>
  \<open>extractFieldValuesWithConfig\<close>; \<open>fieldConfigs\<close> and \<open>preferences\<close> are what
  \<open>templateService.getFieldExtractionConfig(workItemType)\<close> returns.
\<close>

definition extractFieldValuesWithConfig ::
  "env \<Rightarrow> string \<Rightarrow> JiraField list \<Rightarrow> FieldExtractionConfig list \<Rightarrow> ExtractionPreferences \<Rightarrow>
   string option \<Rightarrow> string option \<Rightarrow> EnhancedExtractionResult" where
  "extractFieldValuesWithConfig e d jiraFields fieldConfigs preferences aiProvider apiKey =
     foldl (processField e d fieldConfigs preferences aiProvider apiKey) initialResult jiraFields"

section \<open>Field catalog: fields inferred from an error response\<close>



















section \<open>Observing a run\<close>

text \<open>
  The bucket a field lands in is read off the loop body run on the empty result:
  \<open>bucketOf\<close> adds no logic of its own.
\<close>

datatype bucket = InAutoApplied | InConfirmation | InManual | InSkipped | NotProcessed

definition bucketOf ::
  "env \<Rightarrow> string \<Rightarrow> FieldExtractionConfig list \<Rightarrow> ExtractionPreferences \<Rightarrow>
   string option \<Rightarrow> string option \<Rightarrow> JiraField \<Rightarrow> bucket" where
  "bucketOf e d fieldConfigs preferences aiProvider apiKey jiraField =
     (let r = processField e d fieldConfigs preferences aiProvider apiKey initialResult jiraField
      in if autoApplied r (fld_id jiraField) \<noteq> None then InAutoApplied
         else if requiresConfirmation r (fld_id jiraField) \<noteq> None then InConfirmation
         else if fld_id jiraField \<in> set (manualFields r) then InManual
         else if fld_id jiraField \<in> set (skippedFields r) then InSkipped
         else NotProcessed)"

text \<open>Raising the threshold of the configurations of field \<open>k\<close> by \<open>delta\<close>.\<close>

definition raiseThreshold ::
  "string \<Rightarrow> real \<Rightarrow> FieldExtractionConfig list \<Rightarrow> FieldExtractionConfig list" where
  "raiseThreshold k delta fieldConfigs =
     map (\<lambda>c. if jiraFieldId c = k
               then c\<lparr>confidenceThreshold := confidenceThreshold c + delta\<rparr> else c)
       fieldConfigs"

text \<open>The fields of a run that take the defaults path: required, with no configuration.\<close>

definition onDefaultsPath :: "FieldExtractionConfig list \<Rightarrow> JiraField \<Rightarrow> bool" where
  "onDefaultsPath fieldConfigs jiraField =
     (find (\<lambda>c. jiraFieldId c = fld_id jiraField) fieldConfigs = None \<and> required jiraField)"

definition countSum :: "extractionSummary \<Rightarrow> nat" where
  "countSum s = autoAppliedCount s + confirmationCount s + manualCount s + skippedCount s"

section \<open>Example inputs\<close>

definition priorityField :: JiraField where
  "priorityField =
     \<lparr>fld_id = ''priority'', fld_name = ''Priority'', fld_type = ''select'', required = True,
      allowedValues = Some (map AStr [''Highest'', ''High'', ''Medium'', ''Low'', ''Lowest'']),
      description = None\<rparr>"

definition roadmapField :: JiraField where
  "roadmapField =
     \<lparr>fld_id = ''customfield_10100'', fld_name = ''Include on Roadmap'', fld_type = ''select'',
      required = True, allowedValues = None, description = None\<rparr>"

definition epicField :: JiraField where
  "epicField =
     \<lparr>fld_id = ''customfield_10002'', fld_name = ''Epic Link'', fld_type = ''text'',
      required = False, allowedValues = None, description = None\<rparr>"


definition storyPointsField :: JiraField where
  "storyPointsField =
     \<lparr>fld_id = ''customfield_10000'', fld_name = ''Story Points'', fld_type = ''number'',
      required = True, allowedValues = None, description = None\<rparr>"

definition storyPointsConfig :: FieldExtractionConfig where
  "storyPointsConfig =
     \<lparr>jiraFieldId = ''customfield_10000'', extractionEnabled = True,
      configuredMethod = UsePattern, extractionMode = AutoApply, confidenceThreshold = 0.7,
      displayName = ''Story Points'', requiredForSubmission = False\<rparr>"

text \<open>The preferences the configuration editor starts from, and the same with the override.\<close>

definition defaultPreferences :: ExtractionPreferences where
  "defaultPreferences =
     \<lparr>defaultMethod = UseAi, globalConfidenceThreshold = 0.7,
      requireConfirmationForAll = False, enableSmartDefaults = True\<rparr>"

definition confirmAllPreferences :: ExtractionPreferences where
  "confirmAllPreferences = defaultPreferences\<lparr>requireConfirmationForAll := True\<rparr>"

text \<open>
  A \<open>JSON.parse\<close> that finds a syntax error in every text, a conversion for runs in which
  nothing is parsed, and a provider that is down.
\<close>

definition parseNothing :: "string \<Rightarrow> jsvalue option" where
  "parseNothing s = None"

definition notANumber :: "jsvalue \<Rightarrow> real option" where
  "notANumber v = None"

definition offlineProvider :: "string \<Rightarrow> JiraField list \<Rightarrow> string \<Rightarrow> string \<Rightarrow> error + string" where
  "offlineProvider d jiraFields aiProvider apiKey = Inl (ProviderFailure ''offline'')"

definition offlineEnv :: env where
  "offlineEnv =
     \<lparr>clock = \<lparr>fullYear = 2026, month = 10\<rparr>, callAIProvider = offlineProvider,
      jsonParse = parseNothing, numberOf = notANumber\<rparr>"

section \<open>Pattern extractor: priority\<close>

lemma priority_match_critical:
  "rxExec False priorityPattern (toLowerCase ''this is urgent and critical'') =
     Some \<lparr>whole = ''critical'', groups = [(1, ''critical'')]\<rparr>"
  by code_simp

lemma mapPriority_critical:
  "mapPriorityValue ''critical''
     (Some (map AStr [''Highest'', ''High'', ''Medium'', ''Low'', ''Lowest''])) = Inr ''critical''"
  by code_simp

text \<open>
  C3. For the text "this is urgent and critical" and a priority field with the allowed
  values Highest, High, Medium, Low, Lowest, the claim expects the value "Highest" with
  confidence 0.8. The code matches the word "critical", looks it up as a key of the
  synonym table, where it occurs only as a synonym under "highest", finds no allowed
  value containing "critical", and returns the matched word itself: the value is
  "critical", at confidence 0.8.
\<close>

theorem priority_critical_stays_critical:
  assumes "strIncludes (toLowerCase (fld_name f)) ''priority''"
      and "allowedValues f = Some (map AStr [''Highest'', ''High'', ''Medium'', ''Low'', ''Lowest''])"
  shows "extractWithPatterns now ''this is urgent and critical'' [f] =
           Inr [\<lparr>fieldId = JStr (fld_id f), val = JStr ''critical'', confidence = 0.8,
                 extractionMethod = ByPattern\<rparr>]"
  using assms
  by (simp add: extractWithPatterns_def extractField_def priority_match_critical grp_def
        mapPriority_critical del: map_eq_Cons_conv list.map)

theorem priority_critical_stays_critical_witness:
  "strIncludes (toLowerCase (fld_name priorityField)) ''priority'' \<and>
   allowedValues priorityField =
     Some (map AStr [''Highest'', ''High'', ''Medium'', ''Low'', ''Lowest'']) \<and>
   extractWithPatterns \<lparr>fullYear = 2025, month = 6\<rparr> ''this is urgent and critical''
     [priorityField] =
     Inr [\<lparr>fieldId = JStr ''priority'', val = JStr ''critical'', confidence = 0.8,
           extractionMethod = ByPattern\<rparr>]"
proof -
  have a: "strIncludes (toLowerCase (fld_name priorityField)) ''priority''"
    by code_simp
  have b: "allowedValues priorityField =
             Some (map AStr [''Highest'', ''High'', ''Medium'', ''Low'', ''Lowest''])"
    by (simp add: priorityField_def)
  have c: "fld_id priorityField = ''priority''"
    by (simp add: priorityField_def)
  show ?thesis
    using priority_critical_stays_critical [OF a b, of "\<lparr>fullYear = 2025, month = 6\<rparr>"] a b c
    by simp
qed

section \<open>Pattern extractor: the roadmap branch\<close>

text \<open>
  C2. The claim: one optional entry per field, each under the id of an input field, and a
  field without a match leaves the entries of the other fields alone. The roadmap branch
  leaves the whole function with \<open>return\<close>: for a priority field followed by a roadmap
  field, the entry of the priority field (present when it is the only field) is lost, and
  the one entry returned carries the id \<open>customfield_26360\<close>, which is the id of neither
  input field.
\<close>

theorem roadmap_return_drops_other_fields:
  "extractWithPatterns now ''High priority for the public roadmap'' [priorityField] =
     Inr [\<lparr>fieldId = JStr ''priority'', val = JStr ''Highest'', confidence = 0.8,
           extractionMethod = ByPattern\<rparr>] \<and>
   extractWithPatterns now ''High priority for the public roadmap'' [priorityField, roadmapField] =
     Inr [\<lparr>fieldId = JStr ''customfield_26360'', val = JStr ''public'', confidence = 0.8,
           extractionMethod = ByPattern\<rparr>] \<and>
   ''customfield_26360'' \<notin> set (map fld_id [priorityField, roadmapField])"
  by code_simp

lemma extractField_returned_short:
  "extractField now d f = Returned r \<Longrightarrow> length r \<le> 1"
  by (auto simp: extractField_def Let_def extractInternalExternalValue_def extractRoadmapValue_def
           split: if_splits option.splits sum.splits)

lemma extractLoop_length:
  "extractLoop now d fs acc = Inr r \<Longrightarrow> length r \<le> length acc + length fs"
proof (induction fs arbitrary: acc)
  case Nil
  then show ?case by simp
next
  case (Cons f fs)
  show ?case
  proof (cases "extractField now d f")
    case (Extracted v)
    with Cons.prems Cons.IH [of acc] Cons.IH [of "acc @ [x]" for x] show ?thesis
      by (cases v) (auto split: prod.splits)
  next
    case (Returned xs)
    with Cons.prems extractField_returned_short [of now d f xs] show ?thesis
      by simp
  next
    case (Threw e)
    with Cons.prems show ?thesis by simp
  qed
qed

text \<open>What holds of every result: there are never more entries than fields.\<close>

lemma pattern_entries_bounded:
  "extractWithPatterns now d jiraFields = Inr r \<Longrightarrow> length r \<le> length jiraFields"
  using extractLoop_length [of now d jiraFields "[]" r] by (simp add: extractWithPatterns_def)

section \<open>AI extractor: responses that are not JSON\<close>

text \<open>
  C5, as stated: every response that cannot be parsed as JSON, the empty and the
  whitespace-only response included, gives an empty result and no exception. The empty
  response, a response of three spaces and a response of one no-break space cannot be
  parsed, and \<open>extractWithAI\<close> throws "Empty response from AI provider" for each.
\<close>

theorem empty_response_throws:
  "parseNothing '''' = None \<and>
   extractWithAI parseNothing notANumber (Inr '''') = Inl EmptyResponse \<and>
   parseNothing ''   '' = None \<and>
   extractWithAI parseNothing notANumber (Inr ''   '') = Inl EmptyResponse \<and>
   parseNothing [CHR 0xA0] = None \<and>
   extractWithAI parseNothing notANumber (Inr [CHR 0xA0]) = Inl EmptyResponse"
  by code_simp

text \<open>
  C5, amended: a response that is not empty after trimming and cannot be parsed as JSON
  gives the empty result, without an exception; a response that is empty after trimming
  (the empty response, or one of white space only: tabs, line breaks, spaces, no-break
  spaces) makes \<open>extractWithAI\<close> throw "Empty response from AI provider".
\<close>

theorem unparseable_response_empty_result:
  "(parse response = None \<and> trim response \<noteq> [] \<longrightarrow>
      extractWithAI parse convert (Inr response) = Inr []) \<and>
   (trim response = [] \<longrightarrow> extractWithAI parse convert (Inr response) = Inl EmptyResponse)"
  by (auto simp: extractWithAI_def trim_def)

theorem unparseable_response_empty_result_witness:
  "parseNothing ''Sure! Here are the fields'' = None \<and>
   trim ''Sure! Here are the fields'' \<noteq> [] \<and>
   extractWithAI parseNothing notANumber (Inr ''Sure! Here are the fields'') = Inr [] \<and>
   trim [CHR 0x20, CHR 0xA0, CHR 0x0A] = [] \<and>
   extractWithAI parseNothing notANumber (Inr [CHR 0x20, CHR 0xA0, CHR 0x0A]) =
     Inl EmptyResponse"
proof -
  have a: "parseNothing ''Sure! Here are the fields'' = None"
    by (simp add: parseNothing_def)
  have b: "trim ''Sure! Here are the fields'' \<noteq> []"
    by code_simp
  have c: "trim [CHR 0x20, CHR 0xA0, CHR 0x0A] = []"
    by code_simp
  show ?thesis
    using unparseable_response_empty_result
            [of parseNothing "''Sure! Here are the fields''" notANumber]
      unparseable_response_empty_result [of parseNothing "[CHR 0x20, CHR 0xA0, CHR 0x0A]" notANumber]
      a b c
    by simp
qed

section \<open>Pattern extractor: epic keys\<close>

lemma toLower_not_upper: "\<not> isUpper (toLower c)"
  by (simp add: toLower_def isUpper_def upperAZ_def lowerAZ_def upperLatin_def lowerLatin_def)

lemma epic_needs_upper:
  "r = [] \<or> \<not> isUpper (hd r) \<Longrightarrow> ms False epicPattern (p, r, cs) = []"
  by (cases r) (simp_all add: epicPattern_def RSeqs_def RPlus_def clsMatches_def isUpper_def)

lemma epic_search_none:
  "\<forall>c \<in> set s. \<not> isUpper c \<Longrightarrow> rxSearch False epicPattern p s = None"
  by (induction s arbitrary: p) (simp_all add: epic_needs_upper)

lemma epic_never_matches_lowercase:
  "rxExec False epicPattern (toLowerCase d) = None"
  by (simp add: rxExec_def toLowerCase_def epic_search_none toLower_not_upper)

text \<open>
  C4. The claim: for a field whose name contains "epic" and a text with a token such as
  PROJ-123, the token is the value, at confidence 0.8. The code matches \<open>[A-Z]+-\d+\<close>,
  without the \<open>i\<close> flag, against the lower-cased description, which has no upper-case
  letter: for a field that reaches the epic branch nothing is extracted from any text.
\<close>

theorem epic_key_never_extracted:
  assumes "strIncludes (toLowerCase (fld_name f)) ''epic''"
      and "\<not> strIncludes (toLowerCase (fld_name f)) ''priority''"
      and "\<not> (strIncludes (toLowerCase (fld_name f)) ''quarter'' \<or> fld_id f = ''customfield_26362'')"
      and "\<not> (strIncludes (toLowerCase (fld_name f)) ''roadmap'' \<or>
              strIncludes (toLowerCase (fld_name f)) ''include'' \<or> fld_id f = ''customfield_26360'')"
      and "\<not> (strIncludes (toLowerCase (fld_name f)) ''story'' \<and>
              strIncludes (toLowerCase (fld_name f)) ''point'')"
      and "\<not> strIncludes (toLowerCase (fld_name f)) ''component''"
  shows "extractWithPatterns now d [f] = Inr []"
  using assms
  by (auto simp: extractWithPatterns_def extractField_def Let_def epic_never_matches_lowercase)

lemma epicField_name: "toLowerCase (fld_name epicField) = ''epic link''"
  by code_simp

theorem epic_key_never_extracted_witness:
  "strIncludes (toLowerCase (fld_name epicField)) ''epic'' \<and>
   \<not> strIncludes (toLowerCase (fld_name epicField)) ''priority'' \<and>
   \<not> (strIncludes (toLowerCase (fld_name epicField)) ''quarter'' \<or>
      fld_id epicField = ''customfield_26362'') \<and>
   \<not> (strIncludes (toLowerCase (fld_name epicField)) ''roadmap'' \<or>
      strIncludes (toLowerCase (fld_name epicField)) ''include'' \<or>
      fld_id epicField = ''customfield_26360'') \<and>
   \<not> (strIncludes (toLowerCase (fld_name epicField)) ''story'' \<and>
      strIncludes (toLowerCase (fld_name epicField)) ''point'') \<and>
   \<not> strIncludes (toLowerCase (fld_name epicField)) ''component'' \<and>
   extractWithPatterns \<lparr>fullYear = 2026, month = 10\<rparr> ''Part of PROJ-123'' [epicField] = Inr []"
proof -
  have a: "strIncludes (toLowerCase (fld_name epicField)) ''epic''"
    unfolding epicField_name by code_simp
  have b: "\<not> strIncludes (toLowerCase (fld_name epicField)) ''priority''"
    unfolding epicField_name by code_simp
  have c: "\<not> (strIncludes (toLowerCase (fld_name epicField)) ''quarter'' \<or>
              fld_id epicField = ''customfield_26362'')"
    unfolding epicField_name by code_simp
  have d: "\<not> (strIncludes (toLowerCase (fld_name epicField)) ''roadmap'' \<or>
      strIncludes (toLowerCase (fld_name epicField)) ''include'' \<or>
      fld_id epicField = ''customfield_26360'')"
    unfolding epicField_name by code_simp
  have e: "\<not> (strIncludes (toLowerCase (fld_name epicField)) ''story'' \<and>
      strIncludes (toLowerCase (fld_name epicField)) ''point'')"
    unfolding epicField_name by code_simp
  have g: "\<not> strIncludes (toLowerCase (fld_name epicField)) ''component''"
    unfolding epicField_name by code_simp
  show ?thesis
    using epic_key_never_extracted [OF a b c d e g] a b c d e g by simp
qed

section \<open>Pattern extractor: quarters\<close>








section \<open>Field catalog: the fallback fields\<close>




section \<open>Policy engine: the bucket of a field\<close>

lemmas step_defs = processField_def processFieldWithDefaults_def initialResult_def Let_def

lemma step_autoApplied:
  "autoApplied (processField e d cfgs prefs ap key st f) k \<noteq> None \<longleftrightarrow>
     autoApplied st k \<noteq> None \<or> (k = fld_id f \<and> bucketOf e d cfgs prefs ap key f = InAutoApplied)"
  by (auto simp: bucketOf_def step_defs split: option.splits if_splits)

lemma step_requiresConfirmation:
  "requiresConfirmation (processField e d cfgs prefs ap key st f) k \<noteq> None \<longleftrightarrow>
     requiresConfirmation st k \<noteq> None \<or> (k = fld_id f \<and> bucketOf e d cfgs prefs ap key f = InConfirmation)"
  by (auto simp: bucketOf_def step_defs split: option.splits if_splits)

lemma step_manualFields:
  "k \<in> set (manualFields (processField e d cfgs prefs ap key st f)) \<longleftrightarrow>
     k \<in> set (manualFields st) \<or> (k = fld_id f \<and> bucketOf e d cfgs prefs ap key f = InManual)"
  by (auto simp: bucketOf_def step_defs split: option.splits if_splits)

lemma step_skippedFields:
  "k \<in> set (skippedFields (processField e d cfgs prefs ap key st f)) \<longleftrightarrow>
     k \<in> set (skippedFields st) \<or> (k = fld_id f \<and> bucketOf e d cfgs prefs ap key f = InSkipped)"
  by (auto simp: bucketOf_def step_defs split: option.splits if_splits)

lemma run_autoApplied:
  "autoApplied (foldl (processField e d cfgs prefs ap key) st fs) k \<noteq> None \<longleftrightarrow>
     autoApplied st k \<noteq> None \<or>
     (\<exists>f \<in> set fs. k = fld_id f \<and> bucketOf e d cfgs prefs ap key f = InAutoApplied)"
proof (induction fs arbitrary: st)
  case Nil
  show ?case by simp
next
  case (Cons f fs)
  show ?case
    unfolding foldl_Cons Cons.IH step_autoApplied by auto
qed

lemma run_requiresConfirmation:
  "requiresConfirmation (foldl (processField e d cfgs prefs ap key) st fs) k \<noteq> None \<longleftrightarrow>
     requiresConfirmation st k \<noteq> None \<or>
     (\<exists>f \<in> set fs. k = fld_id f \<and> bucketOf e d cfgs prefs ap key f = InConfirmation)"
proof (induction fs arbitrary: st)
  case Nil
  show ?case by simp
next
  case (Cons f fs)
  show ?case
    unfolding foldl_Cons Cons.IH step_requiresConfirmation by auto
qed

lemma run_manualFields:
  "k \<in> set (manualFields (foldl (processField e d cfgs prefs ap key) st fs)) \<longleftrightarrow>
     k \<in> set (manualFields st) \<or>
     (\<exists>f \<in> set fs. k = fld_id f \<and> bucketOf e d cfgs prefs ap key f = InManual)"
proof (induction fs arbitrary: st)
  case Nil
  show ?case by simp
next
  case (Cons f fs)
  show ?case
    unfolding foldl_Cons Cons.IH step_manualFields by auto
qed

lemma run_skippedFields:
  "k \<in> set (skippedFields (foldl (processField e d cfgs prefs ap key) st fs)) \<longleftrightarrow>
     k \<in> set (skippedFields st) \<or>
     (\<exists>f \<in> set fs. k = fld_id f \<and> bucketOf e d cfgs prefs ap key f = InSkipped)"
proof (induction fs arbitrary: st)
  case Nil
  show ?case by simp
next
  case (Cons f fs)
  show ?case
    unfolding foldl_Cons Cons.IH step_skippedFields by auto
qed

lemma bucketOf_eq:
  "bucketOf e d cfgs prefs ap key f =
     (case find (\<lambda>c. jiraFieldId c = fld_id f) cfgs of
        None \<Rightarrow>
          if \<not> required f then NotProcessed
          else (case extractSingleFieldWithDefaults e d f prefs ap key of
                  None \<Rightarrow> InManual
                | Some x \<Rightarrow>
                    if confidence x \<ge> globalConfidenceThreshold prefs
                    then (if requireConfirmationForAll prefs \<or> confidence x < 0.8
                          then InConfirmation else InAutoApplied)
                    else InManual)
      | Some c \<Rightarrow>
          if \<not> extractionEnabled c then InSkipped
          else if configuredMethod c = UseManual \<or> extractionMode c = ManualOnly then InManual
          else (case extractSingleFieldValue e d f c ap key of
                  None \<Rightarrow> InManual
                | Some x \<Rightarrow>
                    if shouldAutoApplyField c (mkCandidate f d x) prefs then InAutoApplied
                    else InConfirmation))"
  by (auto simp: bucketOf_def step_defs split: option.splits if_splits)

lemma firstAbove_confidence:
  "firstAbove xs t = Some x \<Longrightarrow> confidence x \<ge> t"
  by (auto simp: firstAbove_def split: list.splits if_splits)

lemma firstAbove_lower:
  "t \<le> t' \<Longrightarrow> firstAbove xs t' = Some x \<Longrightarrow> firstAbove xs t = Some x"
  by (auto simp: firstAbove_def split: list.splits if_splits)

lemma extractSingleFieldValue_confidence:
  "extractSingleFieldValue e d f c ap key = Some x \<Longrightarrow> confidence x \<ge> confidenceThreshold c"
  by (auto simp: extractSingleFieldValue_def trySingleFieldValue_def
           split: sum.splits option.splits if_splits prod.splits dest: firstAbove_confidence)

lemma extractSingleFieldValue_lower:
  assumes "0 \<le> delta"
      and "extractSingleFieldValue e d f (c\<lparr>confidenceThreshold := confidenceThreshold c + delta\<rparr>) ap key = Some x"
  shows "\<exists>y. extractSingleFieldValue e d f c ap key = Some y"
proof -
  have le: "confidenceThreshold c \<le> confidenceThreshold c + delta"
    using assms(1) by simp
  show ?thesis
    using assms(2) firstAbove_lower [OF le]
    by (auto simp: extractSingleFieldValue_def trySingleFieldValue_def
             split: sum.splits option.splits if_splits prod.splits)
qed

lemma find_raiseThreshold:
  "find (\<lambda>c. jiraFieldId c = i) (raiseThreshold k delta cfgs) =
     map_option (\<lambda>c. if jiraFieldId c = k
                      then c\<lparr>confidenceThreshold := confidenceThreshold c + delta\<rparr> else c)
       (find (\<lambda>c. jiraFieldId c = i) cfgs)"
  by (induction cfgs) (auto simp: raiseThreshold_def)

lemma shouldAutoApplyField_iff:
  "shouldAutoApplyField c cand prefs \<longleftrightarrow>
     \<not> requireConfirmationForAll prefs \<and> extractionMode c = AutoApply \<and>
     confidence cand \<ge> confidenceThreshold c"
  by (auto simp: shouldAutoApplyField_def split: extractionMode.splits)

lemma confidence_mkCandidate: "confidence (mkCandidate f d x) = confidence x"
  by (simp add: mkCandidate_def)

lemma bucket_requireConfirmationForAll:
  "requireConfirmationForAll prefs \<Longrightarrow> bucketOf e d cfgs prefs ap key f \<noteq> InAutoApplied"
  by (auto simp: bucketOf_eq shouldAutoApplyField_iff split: option.splits)

lemma bucket_autoApply_mode:
  assumes "find (\<lambda>c. jiraFieldId c = fld_id f) cfgs = Some c"
      and "extractionMode c = AutoApply" and "\<not> requireConfirmationForAll prefs"
  shows "bucketOf e d cfgs prefs ap key f \<noteq> InConfirmation"
  using assms
  by (auto simp: bucketOf_eq shouldAutoApplyField_iff confidence_mkCandidate
           split: option.splits dest: extractSingleFieldValue_confidence)

lemma bucket_raise:
  assumes "0 \<le> delta"
  shows "(bucketOf e d (raiseThreshold k delta cfgs) prefs ap key f = InAutoApplied \<longrightarrow>
            bucketOf e d cfgs prefs ap key f = InAutoApplied) \<and>
         (bucketOf e d (raiseThreshold k delta cfgs) prefs ap key f = InConfirmation \<longrightarrow>
            bucketOf e d cfgs prefs ap key f \<in> {InAutoApplied, InConfirmation}) \<and>
         (bucketOf e d cfgs prefs ap key f = InManual \<longrightarrow>
            bucketOf e d (raiseThreshold k delta cfgs) prefs ap key f = InManual)"
proof (cases "find (\<lambda>c. jiraFieldId c = fld_id f) cfgs")
  case None
  then show ?thesis
    by (simp add: bucketOf_eq find_raiseThreshold)
next
  case (Some c)
  show ?thesis
  proof (cases "jiraFieldId c = k")
    case False
    with Some show ?thesis
      by (simp add: bucketOf_eq find_raiseThreshold)
  next
    case True
    let ?c' = "c\<lparr>confidenceThreshold := confidenceThreshold c + delta\<rparr>"
    have b': "bucketOf e d (raiseThreshold k delta cfgs) prefs ap key f =
               (if \<not> extractionEnabled c then InSkipped
                else if configuredMethod c = UseManual \<or> extractionMode c = ManualOnly then InManual
                else (case extractSingleFieldValue e d f ?c' ap key of
                        None \<Rightarrow> InManual
                      | Some x \<Rightarrow>
                          if shouldAutoApplyField ?c' (mkCandidate f d x) prefs then InAutoApplied
                          else InConfirmation))"
      using Some True by (simp add: bucketOf_eq find_raiseThreshold)
    have b: "bucketOf e d cfgs prefs ap key f =
               (if \<not> extractionEnabled c then InSkipped
                else if configuredMethod c = UseManual \<or> extractionMode c = ManualOnly then InManual
                else (case extractSingleFieldValue e d f c ap key of
                        None \<Rightarrow> InManual
                      | Some x \<Rightarrow>
                          if shouldAutoApplyField c (mkCandidate f d x) prefs then InAutoApplied
                          else InConfirmation))"
      using Some by (simp add: bucketOf_eq)
    show ?thesis
      unfolding b b'
      using extractSingleFieldValue_lower [OF assms, of e d f c ap key]
        extractSingleFieldValue_confidence [of e d f c ap key]
        extractSingleFieldValue_confidence [of e d f ?c' ap key]
      by (auto simp: shouldAutoApplyField_iff confidence_mkCandidate split: option.splits)
  qed
qed


section \<open>Policy engine: the global override\<close>

text \<open>
  C8. With \<open>requireConfirmationForAll\<close> set, the \<open>autoApplied\<close> bucket of every run is
  empty, whatever the fields, their configurations (or the lack of one, on the defaults
  path), the thresholds and the confidences of the candidates.
\<close>

theorem confirmation_for_all_no_auto_applied:
  assumes "requireConfirmationForAll preferences"
  shows "autoApplied (extractFieldValuesWithConfig e d jiraFields fieldConfigs preferences
                        aiProvider apiKey) = Map.empty"
proof
  fix k
  have "\<not> autoApplied (extractFieldValuesWithConfig e d jiraFields fieldConfigs preferences
                        aiProvider apiKey) k \<noteq> None"
    unfolding extractFieldValuesWithConfig_def run_autoApplied
    using bucket_requireConfirmationForAll [OF assms] by (simp add: initialResult_def)
  then show "autoApplied (extractFieldValuesWithConfig e d jiraFields fieldConfigs preferences
                        aiProvider apiKey) k = Map.empty k"
    by simp
qed

lemma story_points_run:
  "autoApplied (extractFieldValuesWithConfig offlineEnv ''High priority, 8 points''
      [storyPointsField, priorityField] [storyPointsConfig] defaultPreferences None None)
     ''customfield_10000'' = Some (JNum 8) \<and>
   autoApplied (extractFieldValuesWithConfig offlineEnv ''High priority, 8 points''
      [storyPointsField, priorityField] [storyPointsConfig] defaultPreferences None None)
     ''priority'' = Some (JStr ''Highest'')"
  by code_simp

theorem confirmation_for_all_no_auto_applied_witness:
  "requireConfirmationForAll confirmAllPreferences \<and>
   autoApplied (extractFieldValuesWithConfig offlineEnv ''High priority, 8 points''
      [storyPointsField, priorityField] [storyPointsConfig] confirmAllPreferences None None) =
     Map.empty"
proof -
  have a: "requireConfirmationForAll confirmAllPreferences"
    by (simp add: confirmAllPreferences_def)
  show ?thesis
    using confirmation_for_all_no_auto_applied [OF a] a by simp
qed

section \<open>Policy engine: auto-apply fields never wait for confirmation\<close>

text \<open>
  C10. A field whose configuration (the first one with its id) has the mode auto-apply and
  is enabled never lands in \<open>requiresConfirmation\<close> when \<open>requireConfirmationForAll\<close>
  is off: a candidate is accepted only at or above the threshold that the auto-apply test
  uses again, so every accepted candidate is auto-applied.
\<close>

theorem auto_apply_never_requires_confirmation:
  assumes "find (\<lambda>c. jiraFieldId c = k) fieldConfigs = Some c"
      and "extractionMode c = AutoApply"
      and "extractionEnabled c"
      and "\<not> requireConfirmationForAll preferences"
  shows "requiresConfirmation (extractFieldValuesWithConfig e d jiraFields fieldConfigs
                                 preferences aiProvider apiKey) k = None"
proof -
  have "\<not> requiresConfirmation (extractFieldValuesWithConfig e d jiraFields fieldConfigs
                                 preferences aiProvider apiKey) k \<noteq> None"
    unfolding extractFieldValuesWithConfig_def run_requiresConfirmation
    using bucket_autoApply_mode [of _ fieldConfigs c preferences] assms
    by (auto simp: initialResult_def)
  then show ?thesis
    by simp
qed

theorem auto_apply_never_requires_confirmation_witness:
  "find (\<lambda>c. jiraFieldId c = ''customfield_10000'') [storyPointsConfig] = Some storyPointsConfig \<and>
   extractionMode storyPointsConfig = AutoApply \<and> extractionEnabled storyPointsConfig \<and>
   \<not> requireConfirmationForAll defaultPreferences \<and>
   requiresConfirmation (extractFieldValuesWithConfig offlineEnv ''High priority, 8 points''
      [storyPointsField, priorityField] [storyPointsConfig] defaultPreferences None None)
     ''customfield_10000'' = None"
proof -
  have a: "find (\<lambda>c. jiraFieldId c = ''customfield_10000'') [storyPointsConfig] =
             Some storyPointsConfig"
    by (simp add: storyPointsConfig_def)
  have b: "extractionMode storyPointsConfig = AutoApply"
    by (simp add: storyPointsConfig_def)
  have c: "extractionEnabled storyPointsConfig"
    by (simp add: storyPointsConfig_def)
  have d: "\<not> requireConfirmationForAll defaultPreferences"
    by (simp add: defaultPreferences_def)
  show ?thesis
    using auto_apply_never_requires_confirmation [OF a b c d] a b c d by simp
qed

section \<open>Policy engine: monotone in the threshold\<close>

text \<open>
  C7. Two runs that differ only in the threshold of the configurations of one field,
  raised by \<open>delta \<ge> 0\<close> in the second. Whatever is auto-applied in the second run is
  auto-applied in the first; whatever requires confirmation in the second was auto-applied
  or required confirmation in the first; whatever is manual in the first is manual in the
  second. So raising the threshold moves a field from auto-applied toward confirmation or
  manual, never back.
\<close>

theorem raising_threshold_monotone:
  assumes "0 \<le> delta"
  shows "(autoApplied (extractFieldValuesWithConfig e d jiraFields
                         (raiseThreshold k delta fieldConfigs) preferences aiProvider apiKey) i \<noteq> None
          \<longrightarrow> autoApplied (extractFieldValuesWithConfig e d jiraFields fieldConfigs preferences
                         aiProvider apiKey) i \<noteq> None) \<and>
         (requiresConfirmation (extractFieldValuesWithConfig e d jiraFields
                         (raiseThreshold k delta fieldConfigs) preferences aiProvider apiKey) i \<noteq> None
          \<longrightarrow> autoApplied (extractFieldValuesWithConfig e d jiraFields fieldConfigs preferences
                         aiProvider apiKey) i \<noteq> None \<or>
              requiresConfirmation (extractFieldValuesWithConfig e d jiraFields fieldConfigs
                         preferences aiProvider apiKey) i \<noteq> None) \<and>
         (i \<in> set (manualFields (extractFieldValuesWithConfig e d jiraFields fieldConfigs
                         preferences aiProvider apiKey))
          \<longrightarrow> i \<in> set (manualFields (extractFieldValuesWithConfig e d jiraFields
                         (raiseThreshold k delta fieldConfigs) preferences aiProvider apiKey)))"
  unfolding extractFieldValuesWithConfig_def run_autoApplied run_requiresConfirmation
    run_manualFields
  using bucket_raise [OF assms, of e d k fieldConfigs preferences aiProvider apiKey]
  by (auto simp: initialResult_def)

lemma raising_threshold_can_move_to_manual:
  "autoApplied (extractFieldValuesWithConfig offlineEnv ''8 points'' [storyPointsField]
      [storyPointsConfig] defaultPreferences None None) ''customfield_10000'' = Some (JNum 8) \<and>
   autoApplied (extractFieldValuesWithConfig offlineEnv ''8 points'' [storyPointsField]
      (raiseThreshold ''customfield_10000'' 0.25 [storyPointsConfig]) defaultPreferences None None)
     ''customfield_10000'' = None \<and>
   manualFields (extractFieldValuesWithConfig offlineEnv ''8 points'' [storyPointsField]
      (raiseThreshold ''customfield_10000'' 0.25 [storyPointsConfig]) defaultPreferences None None) =
     [''customfield_10000'']"
  by code_simp

theorem raising_threshold_monotone_witness:
  "(0::real) \<le> 0.1 \<and>
   autoApplied (extractFieldValuesWithConfig offlineEnv ''8 points'' [storyPointsField]
      (raiseThreshold ''customfield_10000'' 0.1 [storyPointsConfig]) defaultPreferences None None)
     ''customfield_10000'' \<noteq> None \<and>
   autoApplied (extractFieldValuesWithConfig offlineEnv ''8 points'' [storyPointsField]
      [storyPointsConfig] defaultPreferences None None) ''customfield_10000'' \<noteq> None \<and>
   requiresConfirmation (extractFieldValuesWithConfig offlineEnv ''8 points'' [storyPointsField]
      (raiseThreshold ''customfield_10000'' 0.1 [storyPointsConfig\<lparr>extractionMode := AlwaysConfirm\<rparr>])
      defaultPreferences None None) ''customfield_10000'' \<noteq> None \<and>
   autoApplied (extractFieldValuesWithConfig offlineEnv ''8 points'' [storyPointsField]
      [storyPointsConfig\<lparr>extractionMode := AlwaysConfirm\<rparr>] defaultPreferences None None)
      ''customfield_10000'' = None \<and>
   requiresConfirmation (extractFieldValuesWithConfig offlineEnv ''8 points'' [storyPointsField]
      [storyPointsConfig\<lparr>extractionMode := AlwaysConfirm\<rparr>] defaultPreferences None None)
      ''customfield_10000'' \<noteq> None \<and>
   ''customfield_10000'' \<in> set (manualFields (extractFieldValuesWithConfig offlineEnv ''no estimate''
      [storyPointsField] [storyPointsConfig] defaultPreferences None None)) \<and>
   ''customfield_10000'' \<in> set (manualFields (extractFieldValuesWithConfig offlineEnv ''no estimate''
      [storyPointsField] (raiseThreshold ''customfield_10000'' 0.1 [storyPointsConfig])
      defaultPreferences None None))"
proof -
  have pos: "(0::real) \<le> 0.1"
    by simp
  have a: "autoApplied (extractFieldValuesWithConfig offlineEnv ''8 points'' [storyPointsField]
      (raiseThreshold ''customfield_10000'' 0.1 [storyPointsConfig]) defaultPreferences None None)
     ''customfield_10000'' \<noteq> None"
    by code_simp
  have b: "requiresConfirmation (extractFieldValuesWithConfig offlineEnv ''8 points'' [storyPointsField]
      (raiseThreshold ''customfield_10000'' 0.1 [storyPointsConfig\<lparr>extractionMode := AlwaysConfirm\<rparr>])
      defaultPreferences None None) ''customfield_10000'' \<noteq> None"
    by code_simp
  have c: "''customfield_10000'' \<in> set (manualFields (extractFieldValuesWithConfig offlineEnv
      ''no estimate'' [storyPointsField] [storyPointsConfig] defaultPreferences None None))"
    by code_simp
  have n: "autoApplied (extractFieldValuesWithConfig offlineEnv ''8 points'' [storyPointsField]
      [storyPointsConfig\<lparr>extractionMode := AlwaysConfirm\<rparr>] defaultPreferences None None)
      ''customfield_10000'' = None"
    by code_simp
  note m1 = raising_threshold_monotone [OF pos, of offlineEnv "''8 points''" "[storyPointsField]"
      "''customfield_10000''" "[storyPointsConfig]" defaultPreferences None None "''customfield_10000''"]
  note m2 = raising_threshold_monotone [OF pos, of offlineEnv "''8 points''" "[storyPointsField]"
      "''customfield_10000''" "[storyPointsConfig\<lparr>extractionMode := AlwaysConfirm\<rparr>]"
      defaultPreferences None None "''customfield_10000''"]
  note m3 = raising_threshold_monotone [OF pos, of offlineEnv "''no estimate''" "[storyPointsField]"
      "''customfield_10000''" "[storyPointsConfig]" defaultPreferences None None "''customfield_10000''"]
  show ?thesis
    using pos a b c n m1 m2 m3 by blast
qed

section \<open>Policy engine: buckets and counts\<close>

lemma step_totalFields:
  "totalFields (summary (processField e d cfgs prefs ap key st f)) =
     totalFields (summary st) +
     (if find (\<lambda>c. jiraFieldId c = fld_id f) cfgs = None \<and> \<not> required f then 0 else 1)"
  by (auto simp: step_defs split: option.splits if_splits)

lemma step_countSum:
  "countSum (summary (processField e d cfgs prefs ap key st f)) =
     countSum (summary st) +
     (if find (\<lambda>c. jiraFieldId c = fld_id f) cfgs = None then 0 else 1)"
  by (auto simp: step_defs countSum_def split: option.splits if_splits)

lemma run_totalFields:
  "totalFields (summary (foldl (processField e d cfgs prefs ap key) st fs)) =
     totalFields (summary st) +
     length (filter (\<lambda>f. \<not> (find (\<lambda>c. jiraFieldId c = fld_id f) cfgs = None \<and> \<not> required f)) fs)"
  by (induction fs arbitrary: st) (simp_all add: step_totalFields)

lemma run_countSum:
  "countSum (summary (foldl (processField e d cfgs prefs ap key) st fs)) =
     countSum (summary st) +
     length (filter (\<lambda>f. find (\<lambda>c. jiraFieldId c = fld_id f) cfgs \<noteq> None) fs)"
  by (induction fs arbitrary: st) (simp_all add: step_countSum)

lemma filter_processed_split:
  "length (filter (\<lambda>f. \<not> (find (\<lambda>c. jiraFieldId c = fld_id f) cfgs = None \<and> \<not> required f)) fs) =
     length (filter (\<lambda>f. find (\<lambda>c. jiraFieldId c = fld_id f) cfgs \<noteq> None) fs) +
     length (filter (onDefaultsPath cfgs) fs)"
  by (induction fs) (auto simp: onDefaultsPath_def)

text \<open>
  What the counters of a run add up to: every field on the defaults path is counted in
  \<open>totalFields\<close> and in no other counter.
\<close>

lemma summary_counts:
  "totalFields (summary (extractFieldValuesWithConfig e d jiraFields fieldConfigs preferences
                           aiProvider apiKey)) =
     countSum (summary (extractFieldValuesWithConfig e d jiraFields fieldConfigs preferences
                           aiProvider apiKey)) +
     length (filter (onDefaultsPath fieldConfigs) jiraFields)"
  unfolding extractFieldValuesWithConfig_def run_totalFields run_countSum filter_processed_split
  by (simp add: initialResult_def countSum_def)

lemma same_id_same_field:
  "distinct (map fld_id fs) \<Longrightarrow> f \<in> set fs \<Longrightarrow> g \<in> set fs \<Longrightarrow> fld_id f = fld_id g \<Longrightarrow> f = g"
  by (meson distinct_map inj_onD)

text \<open>For fields with distinct ids, no id is in two buckets.\<close>

lemma buckets_disjoint:
  assumes "distinct (map fld_id jiraFields)"
      and "r = extractFieldValuesWithConfig e d jiraFields fieldConfigs preferences aiProvider apiKey"
  shows "card ((if autoApplied r k \<noteq> None then {InAutoApplied} else {}) \<union>
               (if requiresConfirmation r k \<noteq> None then {InConfirmation} else {}) \<union>
               (if k \<in> set (manualFields r) then {InManual} else {}) \<union>
               (if k \<in> set (skippedFields r) then {InSkipped} else {})) \<le> 1"
proof -
  have "\<exists>b. \<forall>f \<in> set jiraFields. k = fld_id f \<longrightarrow> bucketOf e d fieldConfigs preferences aiProvider apiKey f = b"
    using same_id_same_field [OF assms(1)] by metis
  then obtain b where b: "\<And>f. f \<in> set jiraFields \<Longrightarrow> k = fld_id f \<Longrightarrow>
      bucketOf e d fieldConfigs preferences aiProvider apiKey f = b"
    by blast
  show ?thesis
    unfolding assms(2) extractFieldValuesWithConfig_def run_autoApplied run_requiresConfirmation
      run_manualFields run_skippedFields
    using b by (cases b) (auto simp: initialResult_def)
qed

section \<open>Policy engine: the counters on the defaults path\<close>

text \<open>
  C1. The claim: the buckets are disjoint and \<open>totalFields\<close> is the sum of the four other
  counters, also for runs with required fields that have no configuration. For one
  required field without a configuration, whatever the text, the provider and the
  preferences, the field is counted in \<open>totalFields\<close> and lands in a bucket, and every
  other counter stays 0: \<open>processFieldWithDefaults\<close> fills the buckets and has no access
  to the counters, which the configured path increments.
\<close>

theorem defaults_path_counts_nothing:
  "summary (extractFieldValuesWithConfig e d [f\<lparr>required := True\<rparr>] [] preferences aiProvider apiKey) =
     \<lparr>totalFields = 1, autoAppliedCount = 0, confirmationCount = 0, manualCount = 0,
      skippedCount = 0\<rparr> \<and>
   bucketOf e d [] preferences aiProvider apiKey (f\<lparr>required := True\<rparr>) \<in>
     {InAutoApplied, InConfirmation, InManual}"
  by (auto simp: extractFieldValuesWithConfig_def bucketOf_eq step_defs split: option.splits)

lemma defaults_path_example:
  "summary (extractFieldValuesWithConfig offlineEnv ''High priority'' [priorityField] []
              defaultPreferences None None) =
     \<lparr>totalFields = 1, autoAppliedCount = 0, confirmationCount = 0, manualCount = 0,
      skippedCount = 0\<rparr> \<and>
   autoApplied (extractFieldValuesWithConfig offlineEnv ''High priority'' [priorityField] []
              defaultPreferences None None) ''priority'' = Some (JStr ''Highest'')"
  by code_simp

end
